theory Spec2Isabelle
  imports Main "HOL-Library.Word"
begin

section \<open>Values of the Go program\<close>

text \<open>
  Go's \<open>int\<close> and \<open>uint\<close> are taken at 64 bits; the conversion \<open>uint(x)\<close> of an
  \<open>int\<close> keeps the bit pattern, so both are 64-bit words. A \<open>float64\<close> is only ever
  copied by this program (never computed with), so it is carried as its 64 bits.
\<close>

type_synonym go_int = "64 word"
type_synonym go_uint = "64 word"
type_synonym float64 = "64 word"

section \<open>The Terraform resource data of \<open>nrs_monitor\<close>\<close>

text \<open>
  The attributes of the schema returned by \<open>NRSMonitorResource\<close>, each absent
  (\<open>None\<close>) or holding a value of its schema type. A script location is the pair of
  its \<open>name\<close> and its \<open>hmac\<close>.
\<close>

record attributes =
  name_attr :: "string option"
  frequency_attr :: "go_int option"
  uri_attr :: "string option"
  locations_attr :: "string list option"
  status_attr :: "string option"
  sla_threshold_attr :: "float64 option"
  validation_string_attr :: "string option"
  verify_ssl_attr :: "bool option"
  bypass_head_request_attr :: "bool option"
  treat_redirect_as_failure_attr :: "bool option"
  script_attr :: "string option"
  script_locations_attr :: "(string \<times> string) list option"
  type_attr :: "string option"

text \<open>
  \<open>schema.ResourceData\<close>: the resource id, the attributes last recorded in the state
  (\<open>prior\<close>) and the attributes the operation reads and writes (\<open>current\<close>: the state
  merged with the planned configuration and with every \<open>Set\<close> made so far).
\<close>

record ResourceData =
  Id :: string
  prior :: attributes
  current :: attributes

text \<open>
  The readers of \<open>helper/schema\<close>. An attribute is named by its selector, and its schema
  type by the zero value of that type (\<open>''''\<close>, \<open>0\<close>, \<open>False\<close>, \<open>[]\<close>).
  \<^item> \<open>Get\<close> returns the value, or the zero value of the type when the attribute is absent.
  \<^item> \<open>GetOk\<close> returns that value and whether the attribute is set to a value other than
    the zero value of its type.
  \<^item> \<open>HasChange\<close> compares the value read from the prior state with the current one,
    both with the zero value standing for an absent attribute.
\<close>

definition Get :: "'a \<Rightarrow> (attributes \<Rightarrow> 'a option) \<Rightarrow> ResourceData \<Rightarrow> 'a" where
  "Get zero key rd = (case key (current rd) of None \<Rightarrow> zero | Some v \<Rightarrow> v)"

definition GetOld :: "'a \<Rightarrow> (attributes \<Rightarrow> 'a option) \<Rightarrow> ResourceData \<Rightarrow> 'a" where
  "GetOld zero key rd = (case key (prior rd) of None \<Rightarrow> zero | Some v \<Rightarrow> v)"

definition GetOk :: "'a \<Rightarrow> (attributes \<Rightarrow> 'a option) \<Rightarrow> ResourceData \<Rightarrow> 'a \<times> bool" where
  "GetOk zero key rd =
     (Get zero key rd, key (current rd) \<noteq> None \<and> Get zero key rd \<noteq> zero)"

definition HasChange :: "'a \<Rightarrow> (attributes \<Rightarrow> 'a option) \<Rightarrow> ResourceData \<Rightarrow> bool" where
  "HasChange zero key rd = (GetOld zero key rd \<noteq> Get zero key rd)"

section \<open>The arguments the provider builds\<close>

text \<open>
  Modelled from the spec: the declaration of \<open>synthetics.UpdateMonitorArgs\<close> is not
  among the sources, and the declaration of \<open>synthetics.CreateMonitorArgs\<close> that is has
  the seven required members and an \<open>Options\<close> map in place of the four optional members
  the provider assigns. The members here are the ones \<open>NRSMonitorUpdate\<close> and
  \<open>NRSMonitorCreate\<close> assign; an optional member is a pointer (\<open>util.StrPtr\<close>,
  \<open>util.BoolPtr\<close>), \<open>None\<close> standing for nil. The update shape has no type member (the
  type is fixed at creation). The client only encodes the arguments, with an encoder
  that is a parameter of the model.
\<close>

record UpdateMonitorArgs =
  upd_Name :: string
  upd_Frequency :: go_uint
  upd_URI :: string
  upd_Locations :: "string list"
  upd_Status :: string
  upd_SLAThreshold :: float64
  upd_ValidationString :: "string option"
  upd_VerifySSL :: "bool option"
  upd_BypassHEADRequest :: "bool option"
  upd_TreatRedirectAsFailure :: "bool option"

record CreateMonitorArgs =
  crt_Name :: string
  crt_Type :: string
  crt_Frequency :: go_uint
  crt_URI :: string
  crt_Locations :: "string list"
  crt_Status :: string
  crt_SLAThreshold :: float64
  crt_ValidationString :: "string option"
  crt_VerifySSL :: "bool option"
  crt_BypassHEADRequest :: "bool option"
  crt_TreatRedirectAsFailure :: "bool option"

text \<open>
  The members of an argument struct that hold a value, by member name: a nil pointer is
  no member of the outgoing arguments.
\<close>

datatype member_value =
    MString string
  | MUint go_uint
  | MFloat float64
  | MBool bool
  | MStrings "string list"

definition opt_member :: "string \<Rightarrow> ('a \<Rightarrow> member_value) \<Rightarrow> 'a option \<Rightarrow> (string \<times> member_value) list" where
  "opt_member k mk p = (case p of None \<Rightarrow> [] | Some v \<Rightarrow> [(k, mk v)])"

definition UpdateMonitorArgs_members :: "UpdateMonitorArgs \<Rightarrow> (string \<times> member_value) list" where
  "UpdateMonitorArgs_members a =
     [(''Name'', MString (upd_Name a)),
      (''Frequency'', MUint (upd_Frequency a)),
      (''URI'', MString (upd_URI a)),
      (''Locations'', MStrings (upd_Locations a)),
      (''Status'', MString (upd_Status a)),
      (''SLAThreshold'', MFloat (upd_SLAThreshold a))]
     @ opt_member ''ValidationString'' MString (upd_ValidationString a)
     @ opt_member ''VerifySSL'' MBool (upd_VerifySSL a)
     @ opt_member ''BypassHEADRequest'' MBool (upd_BypassHEADRequest a)
     @ opt_member ''TreatRedirectAsFailure'' MBool (upd_TreatRedirectAsFailure a)"

text \<open>
  \<open>NRSMonitorUpdate\<close>, up to its call of \<open>client.UpdateMonitor\<close>: the arguments it
  passes. The six required members are read with \<open>Get\<close>; each optional member is
  assigned under \<open>HasChange\<close>, the validation string only when it is not empty.
\<close>

definition NRSMonitorUpdate_args :: "ResourceData \<Rightarrow> UpdateMonitorArgs" where
  "NRSMonitorUpdate_args rd =
     (let args = \<lparr> upd_Name = Get [] name_attr rd,
                    upd_Frequency = Get 0 frequency_attr rd,
                    upd_URI = Get [] uri_attr rd,
                    upd_Locations = Get [] locations_attr rd,
                    upd_Status = Get [] status_attr rd,
                    upd_SLAThreshold = Get 0 sla_threshold_attr rd,
                    upd_ValidationString = None,
                    upd_VerifySSL = None,
                    upd_BypassHEADRequest = None,
                    upd_TreatRedirectAsFailure = None \<rparr>;
          args = (if HasChange [] validation_string_attr rd
                  then (let validationString = Get [] validation_string_attr rd
                        in if validationString \<noteq> []
                           then args\<lparr>upd_ValidationString := Some validationString\<rparr>
                           else args)
                  else args);
          args = (if HasChange False verify_ssl_attr rd
                  then args\<lparr>upd_VerifySSL := Some (Get False verify_ssl_attr rd)\<rparr>
                  else args);
          args = (if HasChange False bypass_head_request_attr rd
                  then args\<lparr>upd_BypassHEADRequest := Some (Get False bypass_head_request_attr rd)\<rparr>
                  else args);
          args = (if HasChange False treat_redirect_as_failure_attr rd
                  then args\<lparr>upd_TreatRedirectAsFailure :=
                              Some (Get False treat_redirect_as_failure_attr rd)\<rparr>
                  else args)
      in args)"

text \<open>
  \<open>NRSMonitorCreate\<close>, up to its call of \<open>client.CreateMonitor\<close>: the arguments it
  passes. Each optional member is assigned under the \<open>ok\<close> of \<open>GetOk\<close>.
\<close>

definition NRSMonitorCreate_args :: "ResourceData \<Rightarrow> CreateMonitorArgs" where
  "NRSMonitorCreate_args rd =
     (let args = \<lparr> crt_Name = Get [] name_attr rd,
                    crt_Type = Get [] type_attr rd,
                    crt_Frequency = Get 0 frequency_attr rd,
                    crt_URI = Get [] uri_attr rd,
                    crt_Locations = Get [] locations_attr rd,
                    crt_Status = Get [] status_attr rd,
                    crt_SLAThreshold = Get 0 sla_threshold_attr rd,
                    crt_ValidationString = None,
                    crt_VerifySSL = None,
                    crt_BypassHEADRequest = None,
                    crt_TreatRedirectAsFailure = None \<rparr>;
          args = (case GetOk [] validation_string_attr rd of
                    (data, ok) \<Rightarrow> if ok then args\<lparr>crt_ValidationString := Some data\<rparr> else args);
          args = (case GetOk False verify_ssl_attr rd of
                    (data, ok) \<Rightarrow> if ok then args\<lparr>crt_VerifySSL := Some data\<rparr> else args);
          args = (case GetOk False bypass_head_request_attr rd of
                    (data, ok) \<Rightarrow> if ok then args\<lparr>crt_BypassHEADRequest := Some data\<rparr> else args);
          args = (case GetOk False treat_redirect_as_failure_attr rd of
                    (data, ok) \<Rightarrow> if ok then args\<lparr>crt_TreatRedirectAsFailure := Some data\<rparr> else args)
      in args)"

text \<open>Resource data for examples: nothing set, and one attribute record.\<close>

definition no_attributes :: attributes where
  "no_attributes =
     \<lparr> name_attr = None, frequency_attr = None, uri_attr = None, locations_attr = None,
       status_attr = None, sla_threshold_attr = None, validation_string_attr = None,
       verify_ssl_attr = None, bypass_head_request_attr = None,
       treat_redirect_as_failure_attr = None, script_attr = None,
       script_locations_attr = None, type_attr = None \<rparr>"

definition rd_update_example :: ResourceData where
  "rd_update_example =
     \<lparr> Id = ''abc123'',
       prior = no_attributes\<lparr> name_attr := Some ''home'',
                              validation_string_attr := Some ''ok'',
                              verify_ssl_attr := Some True \<rparr>,
       current = no_attributes\<lparr> name_attr := Some ''home'',
                                validation_string_attr := Some [],
                                verify_ssl_attr := Some False \<rparr> \<rparr>"

definition rd_create_example :: ResourceData where
  "rd_create_example =
     \<lparr> Id = [],
       prior = no_attributes,
       current = no_attributes\<lparr> name_attr := Some ''home'',
                                type_attr := Some ''SIMPLE'',
                                validation_string_attr := Some [],
                                verify_ssl_attr := Some False,
                                bypass_head_request_attr := Some True \<rparr> \<rparr>"

section \<open>Errors, panics and the allocation of error values\<close>

text \<open>
  An error value of \<open>github.com/pkg/errors\<close> is a pointer to a struct allocated when
  the error is made, and Go's \<open>==\<close> on two errors compares the pointers. The model
  keeps the address with the value, so that equality of the model's errors is that
  identity:
  \<^item> \<open>Fundamental a m\<close> is the result of \<open>errors.New\<close> or \<open>errors.Errorf\<close> with message
    \<open>m\<close>, allocated at address \<open>a\<close>;
  \<^item> \<open>Wrapped a e m\<close> is the result of \<open>errors.Wrap\<close> or \<open>errors.Wrapf\<close> of the cause
    \<open>e\<close> with message \<open>m\<close>, allocated at address \<open>a\<close>;
  \<^item> \<open>Foreign m\<close> is an error made outside this program (by the transport, the URL
    parser, the JSON or the time package).
  A nil error is \<open>None\<close> of \<open>goerror option\<close>; a function returning a value or an
  error returns \<open>goerror + 'a\<close>.
\<close>

datatype goerror =
    Fundamental nat string
  | Wrapped nat goerror string
  | Foreign string

text \<open>
  A call either returns or panics.
\<close>

datatype 'a outcome = Return 'a | Panic string

text \<open>
  The members of \<open>http.Request\<close> and \<open>http.Response\<close> the client touches. \<open>Form\<close> is
  a \<open>url.Values\<close> map, \<open>None\<close> standing for the nil map.
\<close>

record Request =
  req_Method :: string
  req_URL :: string
  req_Header :: "(string \<times> string) list"
  req_Form :: "(string \<times> string list) list option"
  req_Body :: "string option"

record Response =
  resp_StatusCode :: int
  resp_Header :: "string \<Rightarrow> string list option"
  resp_Body :: string

text \<open>
  What the program changes outside its own variables: the next free address for an
  error value, and the requests handed to the transport so far.
\<close>

record world =
  next_addr :: nat
  sent :: "Request list"

definition errors_New :: "string \<Rightarrow> world \<Rightarrow> goerror \<times> world" where
  "errors_New message w = (Fundamental (next_addr w) message, w\<lparr>next_addr := Suc (next_addr w)\<rparr>)"

definition errors_Wrap :: "goerror \<Rightarrow> string \<Rightarrow> world \<Rightarrow> goerror \<times> world" where
  "errors_Wrap err message w = (Wrapped (next_addr w) err message, w\<lparr>next_addr := Suc (next_addr w)\<rparr>)"

text \<open>
  \<open>Error\<close> and \<open>Cause\<close> of \<open>pkg/errors\<close>, and whether every address of an error value is
  below a given one (the value was allocated before that address became the next free
  one).
\<close>

fun Error :: "goerror \<Rightarrow> string" where
  "Error (Fundamental a message) = message"
| "Error (Wrapped a cause message) = message @ '': '' @ Error cause"
| "Error (Foreign message) = message"

fun Cause :: "goerror \<Rightarrow> goerror" where
  "Cause (Wrapped a cause message) = Cause cause"
| "Cause e = e"

fun allocated_before :: "nat \<Rightarrow> goerror \<Rightarrow> bool" where
  "allocated_before n (Fundamental a message) = (a < n)"
| "allocated_before n (Wrapped a cause message) = (a < n \<and> allocated_before n cause)"
| "allocated_before n (Foreign message) = True"

text \<open>
  The address of an error value, if it has one.
\<close>

fun address :: "goerror \<Rightarrow> nat option" where
  "address (Fundamental a message) = Some a"
| "address (Wrapped a cause message) = Some a"
| "address (Foreign message) = None"

text \<open>
  Decimal formatting: \<open>%d\<close> of an \<open>int\<close> and \<open>strconv.FormatUint(x, 10)\<close>.
\<close>

fun digits :: "nat \<Rightarrow> string" where
  "digits n =
     (if n < 10 then [''0123456789'' ! n]
      else digits (n div 10) @ [''0123456789'' ! (n mod 10)])"

declare digits.simps [simp del]

definition Itoa :: "int \<Rightarrow> string" where
  "Itoa i = (if i < 0 then CHR ''-'' # digits (nat (- i)) else digits (nat i))"

definition FormatUint :: "go_uint \<Rightarrow> string" where
  "FormatUint x = digits (unat x)"

section \<open>The pattern \<open>monitorURL\<close>\<close>

text \<open>
  \<open>monitorURL\<close> is
  \<^verbatim>\<open>^https://synthetics.newrelic.com/synthetics/api/v3/monitors/(.+)$\<close>
  compiled by Go's \<open>regexp\<close> with no flag: \<open>^\<close> and \<open>$\<close> match the start and the end of
  the text, a dot matches any one character but the newline, every other character of
  the pattern matches itself, and the group \<open>(.+)\<close> takes one or more characters, none a
  newline. A character of the text is a UTF-8 sequence as \<open>utf8.DecodeRuneInString\<close>
  reads it (\<open>DecodeRune_width\<close> bytes; one byte where the bytes are no valid sequence).

  \<open>match_prefix\<close> matches the pattern text before the group and returns the rest of the
  text; \<open>monitorURL_FindAllStringSubmatch s\<close> is
  \<open>monitorURL.FindAllStringSubmatch(s, 1)\<close>: no match, or the one match made of the
  whole text and the text of the group.
\<close>

definition in_range :: "nat \<Rightarrow> nat \<Rightarrow> char \<Rightarrow> bool" where
  "in_range lo hi c = (lo \<le> of_char c \<and> (of_char c :: nat) \<le> hi)"

fun DecodeRune_width :: "string \<Rightarrow> nat" where
  "DecodeRune_width [] = 0"
| "DecodeRune_width (b0 # rest) =
     (let x = (of_char b0 :: nat) in
      if x < 128 then 1
      else if 194 \<le> x \<and> x \<le> 223 then
        (case rest of
           b1 # _ \<Rightarrow> if in_range 128 191 b1 then 2 else 1
         | _ \<Rightarrow> 1)
      else if 224 \<le> x \<and> x \<le> 239 then
        (case rest of
           b1 # b2 # _ \<Rightarrow>
             if in_range (if x = 224 then 160 else 128) (if x = 237 then 159 else 191) b1
                \<and> in_range 128 191 b2
             then 3 else 1
         | _ \<Rightarrow> 1)
      else if 240 \<le> x \<and> x \<le> 244 then
        (case rest of
           b1 # b2 # b3 # _ \<Rightarrow>
             if in_range (if x = 240 then 144 else 128) (if x = 244 then 143 else 191) b1
                \<and> in_range 128 191 b2 \<and> in_range 128 191 b3
             then 4 else 1
         | _ \<Rightarrow> 1)
      else 1)"

definition newline :: char where
  "newline = CHR 0x0A"

definition monitorURL_prefix :: string where
  "monitorURL_prefix = ''https://synthetics.newrelic.com/synthetics/api/v3/monitors/''"

fun match_prefix :: "string \<Rightarrow> string \<Rightarrow> string option" where
  "match_prefix [] text = Some text"
| "match_prefix (p # ps) [] = None"
| "match_prefix (p # ps) (c # cs) =
     (if p = CHR ''.''
      then (if c = newline then None
            else match_prefix ps (drop (DecodeRune_width (c # cs)) (c # cs)))
      else (if c = p then match_prefix ps cs else None))"

definition monitorURL_FindAllStringSubmatch :: "string \<Rightarrow> string list list" where
  "monitorURL_FindAllStringSubmatch s =
     (case match_prefix monitorURL_prefix s of
        None \<Rightarrow> []
      | Some rest \<Rightarrow> if rest \<noteq> [] \<and> newline \<notin> set rest then [[s, rest]] else [])"

section \<open>The client\<close>

text \<open>
  A \<open>time.Time\<close> is carried as an instant and a zone offset; the program only stores it.
\<close>

type_synonym Time = "int \<times> int"

text \<open>
  Modelled from the spec: the declaration of \<open>Monitor\<close> among the sources ends with
  \<open>APIVersion\<close>, while \<open>NRSMonitorRead\<close> reads \<open>monitor.ValidationString\<close>,
  \<open>monitor.VerifySSL\<close>, \<open>monitor.BypassHEADRequest\<close> and
  \<open>monitor.TreatRedirectAsFailure\<close> as pointers. The record has the declared members
  followed by these four, the tri-state optional fields of the remote monitor (\<open>None\<close>
  for nil).
\<close>

record Monitor =
  mon_ID :: string
  mon_Name :: string
  mon_Type :: string
  mon_Frequency :: go_uint
  mon_URI :: string
  mon_Locations :: "string list"
  mon_Status :: string
  mon_SLAThreshold :: float64
  mon_UserID :: go_uint
  mon_APIVersion :: string
  mon_ValidationString :: "string option"
  mon_VerifySSL :: "bool option"
  mon_BypassHEADRequest :: "bool option"
  mon_TreatRedirectAsFailure :: "bool option"

text \<open>
  \<open>ExtendedMonitor.Options\<close> is carried as the list of its keys with the JSON text of the
  values. \<open>GetAllMonitorsResponse.Monitors\<close> is a slice of pointers, \<open>None\<close> standing for
  a nil one.
\<close>

record ExtendedMonitor =
  ext_ID :: string
  ext_Name :: string
  ext_Type :: string
  ext_Frequency :: go_uint
  ext_URI :: string
  ext_Locations :: "string list"
  ext_Status :: string
  ext_SLAThreshold :: float64
  ext_Options :: "(string \<times> string) list"
  ext_ModifiedAt :: Time
  ext_CreatedAt :: Time
  ext_UserID :: go_uint
  ext_APIVersion :: string
  ext_ModifiedAtRaw :: string
  ext_CreatedAtRaw :: string

record GetAllMonitorsArgs =
  Offset :: go_uint
  Limit :: go_uint

record GetAllMonitorsResponse =
  Monitors :: "ExtendedMonitor option list"
  Count :: go_uint

text \<open>
  The library functions whose results the program only passes on: the URL parser
  inside \<open>http.NewRequest\<close> (the message of its error, if any), \<open>time.Parse\<close> with
  \<open>timeFormat\<close>, and the JSON encoder and decoders (\<open>Inl\<close> the message of the error).
\<close>

record golib =
  url_Parse :: "string \<Rightarrow> string option"
  time_Parse :: "string \<Rightarrow> string + Time"
  json_Encode :: "CreateMonitorArgs \<Rightarrow> string + string"
  json_Decode_Monitor :: "string \<Rightarrow> string + Monitor"
  json_Decode_GetAllMonitorsResponse :: "string \<Rightarrow> string + GetAllMonitorsResponse"

text \<open>
  The client. Its transport answers a request with an error or a response; the answer
  may depend on the requests made before (the first argument).
\<close>

record Client =
  APIKey :: string
  HTTPClient :: "Request list \<Rightarrow> Request \<Rightarrow> goerror + Response"

text \<open>
  \<open>http.NewRequest\<close> fails when the URL does not parse (the methods used here are valid)
  and returns a request with an empty header and a nil \<open>Form\<close>. \<open>Header.Add\<close>,
  \<open>Header.Set\<close> and \<open>Header.Get\<close> are those of \<open>net/http\<close> on canonical keys.
  \<open>url.Values.Add\<close> assigns to an entry of the map, which panics on a nil map.
\<close>

definition http_NewRequest :: "golib \<Rightarrow> string \<Rightarrow> string \<Rightarrow> string option \<Rightarrow> goerror + Request" where
  "http_NewRequest lib method url body =
     (case url_Parse lib url of
        Some message \<Rightarrow> Inl (Foreign message)
      | None \<Rightarrow> Inr \<lparr> req_Method = method, req_URL = url, req_Header = [],
                       req_Form = None, req_Body = body \<rparr>)"

definition Header_Add :: "string \<Rightarrow> string \<Rightarrow> Request \<Rightarrow> Request" where
  "Header_Add k v request = request\<lparr>req_Header := req_Header request @ [(k, v)]\<rparr>"

definition Header_Set :: "string \<Rightarrow> string \<Rightarrow> Request \<Rightarrow> Request" where
  "Header_Set k v request =
     request\<lparr>req_Header := filter (\<lambda>kv. fst kv \<noteq> k) (req_Header request) @ [(k, v)]\<rparr>"

definition Header_Get :: "(string \<Rightarrow> string list option) \<Rightarrow> string \<Rightarrow> string" where
  "Header_Get h k = (case h k of None \<Rightarrow> [] | Some [] \<Rightarrow> [] | Some (v # _) \<Rightarrow> v)"

definition Values_Add ::
  "string \<Rightarrow> string \<Rightarrow> (string \<times> string list) list option \<Rightarrow> (string \<times> string list) list option outcome" where
  "Values_Add k v form =
     (case form of
        None \<Rightarrow> Panic ''assignment to entry in nil map''
      | Some m \<Rightarrow>
          Return (Some (case map_of m k of
                          None \<Rightarrow> m @ [(k, [v])]
                        | Some vs \<Rightarrow> map (\<lambda>kv. if fst kv = k then (k, vs @ [v]) else kv) m)))"

text \<open>
  \<open>c.HTTPClient.Do(request)\<close>, and the two ways the client fails: with a new error and
  with a wrapped one.
\<close>

definition Do :: "Client \<Rightarrow> Request \<Rightarrow> world \<Rightarrow> (goerror + Response) \<times> world" where
  "Do c request w = (HTTPClient c (sent w) request, w\<lparr>sent := sent w @ [request]\<rparr>)"

definition fail_new :: "string \<Rightarrow> world \<Rightarrow> (goerror + 'a) \<times> world" where
  "fail_new message w = (case errors_New message w of (e, w') \<Rightarrow> (Inl e, w'))"

definition fail_wrap :: "goerror \<Rightarrow> string \<Rightarrow> world \<Rightarrow> (goerror + 'a) \<times> world" where
  "fail_wrap err message w = (case errors_Wrap err message w of (e, w') \<Rightarrow> (Inl e, w'))"

text \<open>
  The functions of the client, in the order of the source.
\<close>

definition getRequest ::
  "golib \<Rightarrow> Client \<Rightarrow> string \<Rightarrow> string \<Rightarrow> string option \<Rightarrow> world \<Rightarrow> (goerror + Request) \<times> world" where
  "getRequest lib c method url body w =
     (case http_NewRequest lib method url body of
        Inl err \<Rightarrow> fail_wrap err ''error: Synthetics request could not be created'' w
      | Inr request \<Rightarrow> (Inr (Header_Add ''X-Api-Key'' (APIKey c) request), w))"

definition monitors_url :: string where
  "monitors_url = ''https://synthetics.newrelic.com/synthetics/api/v3/monitors''"

definition GetMonitor :: "golib \<Rightarrow> Client \<Rightarrow> string \<Rightarrow> world \<Rightarrow> (goerror + Monitor) \<times> world" where
  "GetMonitor lib c monitor_id w =
     (if monitor_id = [] then fail_new (''error: invalid id provided: '' @ monitor_id) w
      else
        case getRequest lib c ''GET'' (monitors_url @ ''/'' @ monitor_id) None w of
          (Inl err, w1) \<Rightarrow> fail_wrap err ''error: could not create GetMonitor request'' w1
        | (Inr request, w1) \<Rightarrow>
            (case Do c request w1 of
               (Inl err, w2) \<Rightarrow> fail_wrap err ''error: could not perform GetMonitor request'' w2
             | (Inr response, w2) \<Rightarrow>
                 if resp_StatusCode response = 404
                 then fail_new ''error: could not find monitor'' w2
                 else if resp_StatusCode response \<noteq> 200
                 then fail_new (''error: invalid response from GetMonitor with code ''
                                @ Itoa (resp_StatusCode response) @ ''. Message: ''
                                @ resp_Body response) w2
                 else
                   (case json_Decode_Monitor lib (resp_Body response) of
                      Inl message \<Rightarrow>
                        fail_wrap (Foreign message)
                          ''error: could not parse GetMonitor JSON response'' w2
                    | Inr monitor \<Rightarrow> (Inr monitor, w2))))"

definition CreateMonitor ::
  "golib \<Rightarrow> Client \<Rightarrow> CreateMonitorArgs \<Rightarrow> world \<Rightarrow> (goerror + Monitor) \<times> world" where
  "CreateMonitor lib c m w =
     (case json_Encode lib m of
        Inl message \<Rightarrow>
          fail_wrap (Foreign message) (''error: could not JSON encode monitor: '' @ crt_Name m) w
      | Inr reqBody \<Rightarrow>
          (case getRequest lib c ''POST'' monitors_url (Some reqBody) w of
             (Inl err, w1) \<Rightarrow> fail_wrap err ''error: could not create CreateMonitor request'' w1
           | (Inr request0, w1) \<Rightarrow>
               (let request = Header_Set ''Content-Type'' ''application/json'' request0 in
                case Do c request w1 of
                  (Inl err, w2) \<Rightarrow>
                    fail_wrap err ''error: could not perform CreateMonitor request'' w2
                | (Inr response, w2) \<Rightarrow>
                    if resp_StatusCode response \<noteq> 201
                    then fail_new (''error: invalid response from CreateMonitor with code ''
                                   @ Itoa (resp_StatusCode response) @ ''. Message: ''
                                   @ resp_Body response) w2
                    else
                      (let location = Header_Get (resp_Header response) ''Location'';
                           matches = monitorURL_FindAllStringSubmatch location
                       in if length matches = 0
                          then fail_new
                                 ''error: could not find an ID for monitor in location header'' w2
                          else
                            (let monitor_id = matches ! 0 ! 1 in
                             case GetMonitor lib c monitor_id w2 of
                               (Inl err, w3) \<Rightarrow>
                                 fail_wrap err
                                   (''error: could not get metadata for monitor: '' @ monitor_id) w3
                             | (Inr monitor, w3) \<Rightarrow> (Inr monitor, w3))))))"

definition parse :: "golib \<Rightarrow> ExtendedMonitor \<Rightarrow> world \<Rightarrow> (goerror + ExtendedMonitor) \<times> world" where
  "parse lib e w =
     (case time_Parse lib (ext_ModifiedAtRaw e) of
        Inl message \<Rightarrow>
          fail_wrap (Foreign message)
            (''error: could not parse timestamp: '' @ ext_ModifiedAtRaw e) w
      | Inr modified \<Rightarrow>
          (case time_Parse lib (ext_CreatedAtRaw e) of
             Inl message \<Rightarrow>
               fail_wrap (Foreign message)
                 (''error: could not parse timestamp: '' @ ext_CreatedAtRaw e) w
           | Inr created \<Rightarrow>
               (Inr (e\<lparr>ext_ModifiedAt := modified, ext_CreatedAt := created\<rparr>), w)))"

fun parse_all ::
  "golib \<Rightarrow> ExtendedMonitor option list \<Rightarrow> world
     \<Rightarrow> (goerror + ExtendedMonitor option list) outcome \<times> world" where
  "parse_all lib [] w = (Return (Inr []), w)"
| "parse_all lib (None # rest) w =
     (Panic ''invalid memory address or nil pointer dereference'', w)"
| "parse_all lib (Some monitor # rest) w =
     (case parse lib monitor w of
        (Inl err, w1) \<Rightarrow>
          (case errors_Wrap err (''error: could not parse monitor: '' @ ext_ID monitor) w1 of
             (e, w2) \<Rightarrow> (Return (Inl e), w2))
      | (Inr monitor', w1) \<Rightarrow>
          (case parse_all lib rest w1 of
             (Return (Inr rest'), w2) \<Rightarrow> (Return (Inr (Some monitor' # rest')), w2)
           | other \<Rightarrow> other))"

text \<open>
  \<open>GetAllMonitors\<close>, in two parts: the construction of the request (up to the call of
  the transport) and the rest.
\<close>

definition returning :: "('a \<times> world) \<Rightarrow> 'a outcome \<times> world" where
  "returning r = (Return (fst r), snd r)"

definition GetAllMonitors_request ::
  "golib \<Rightarrow> Client \<Rightarrow> (GetAllMonitorsArgs \<Rightarrow> GetAllMonitorsArgs) list \<Rightarrow> world
     \<Rightarrow> (goerror + Request) outcome \<times> world" where
  "GetAllMonitors_request lib c configs w =
     (let requestArgs = fold (\<lambda>config args. config args) configs \<lparr>Offset = 0, Limit = 0\<rparr> in
      case getRequest lib c ''GET'' monitors_url None w of
        (Inl err, w1) \<Rightarrow>
          returning (fail_wrap err ''error: could not create GetAllMonitors request'' w1)
      | (Inr request, w1) \<Rightarrow>
          (case (if Offset requestArgs > 0
                 then Values_Add ''offset'' (FormatUint (Offset requestArgs)) (req_Form request)
                 else Return (req_Form request)) of
             Panic p \<Rightarrow> (Panic p, w1)
           | Return form1 \<Rightarrow>
               (case (if Limit requestArgs > 0
                      then Values_Add ''limit'' (FormatUint (Limit requestArgs)) form1
                      else Return form1) of
                  Panic p \<Rightarrow> (Panic p, w1)
                | Return form2 \<Rightarrow> (Return (Inr (request\<lparr>req_Form := form2\<rparr>)), w1))))"

definition GetAllMonitors ::
  "golib \<Rightarrow> Client \<Rightarrow> (GetAllMonitorsArgs \<Rightarrow> GetAllMonitorsArgs) list \<Rightarrow> world
     \<Rightarrow> (goerror + GetAllMonitorsResponse) outcome \<times> world" where
  "GetAllMonitors lib c configs w =
     (case GetAllMonitors_request lib c configs w of
        (Panic p, w1) \<Rightarrow> (Panic p, w1)
      | (Return (Inl err), w1) \<Rightarrow> (Return (Inl err), w1)
      | (Return (Inr request), w1) \<Rightarrow>
          (case Do c request w1 of
             (Inl err, w2) \<Rightarrow>
               returning (fail_wrap err ''error: could not perform GetAllMonitors request'' w2)
           | (Inr response, w2) \<Rightarrow>
               if resp_StatusCode response \<noteq> 200
               then returning
                      (fail_new (''error: invalid response from GetAllMonitors with code ''
                                 @ Itoa (resp_StatusCode response) @ ''. Message: ''
                                 @ resp_Body response) w2)
               else
                 (case json_Decode_GetAllMonitorsResponse lib (resp_Body response) of
                    Inl message \<Rightarrow>
                      returning
                        (fail_wrap (Foreign message)
                           ''error: could not parse GetAllMonitors JSON response'' w2)
                  | Inr getAllMonitorsResponse \<Rightarrow>
                      (case parse_all lib (Monitors getAllMonitorsResponse) w2 of
                         (Panic p, w3) \<Rightarrow> (Panic p, w3)
                       | (Return (Inl err), w3) \<Rightarrow> (Return (Inl err), w3)
                       | (Return (Inr monitors), w3) \<Rightarrow>
                           (Return (Inr (getAllMonitorsResponse\<lparr>Monitors := monitors\<rparr>)), w3)))))"

section \<open>The provider: existence of a monitor\<close>

text \<open>
  What the provider uses of package \<open>synthetics\<close> and the sources do not declare, taken
  as parameters: the two sentinel errors the provider compares with \<open>==\<close>, and
  \<open>GetMonitorScript\<close>, which returns a script and an error.
\<close>

record synthetics_undeclared =
  ErrMonitorNotFound :: goerror
  ErrMonitorScriptNotFound :: goerror
  GetMonitorScript :: "Client \<Rightarrow> string \<Rightarrow> world \<Rightarrow> (string \<times> goerror option) \<times> world"

definition NRSMonitorExists ::
  "golib \<Rightarrow> synthetics_undeclared \<Rightarrow> Client \<Rightarrow> ResourceData \<Rightarrow> world
     \<Rightarrow> (bool \<times> goerror option) \<times> world" where
  "NRSMonitorExists lib syn client resourceData w =
     (case GetMonitor lib client (Id resourceData) w of
        (Inl err, w1) \<Rightarrow>
          if err = ErrMonitorNotFound syn then ((False, None), w1)
          else (case errors_Wrap err ''error: could not get monitor'' w1 of
                  (e, w2) \<Rightarrow> ((False, Some e), w2))
      | (Inr monitor, w1) \<Rightarrow> ((True, None), w1))"

text \<open>
  \<open>ResourceData.Set\<close> writes an attribute, named by the update function of its
  selector; \<open>nil\<close> (\<open>None\<close>) clears it. It fails only for a key outside the schema or a
  value of another type than the schema's; every call of the provider passes a key of
  the schema and a value of its type, so the model's \<open>Set\<close> returns the data alone.
\<close>

definition Set ::
  "(('a option \<Rightarrow> 'a option) \<Rightarrow> attributes \<Rightarrow> attributes) \<Rightarrow> 'a option \<Rightarrow> ResourceData
     \<Rightarrow> ResourceData" where
  "Set key_update v rd = rd\<lparr>current := key_update (\<lambda>_. v) (current rd)\<rparr>"

section \<open>SHA-256\<close>

text \<open>
  \<open>crypto/sha256\<close>: the digest of FIPS 180-4 on byte strings. \<open>sha256_Sum s\<close> is the
  result of \<open>hash.Write([]byte(s))\<close> followed by \<open>hash.Sum(nil)\<close> on a new hash.
\<close>

unbundle bit_operations_syntax

type_synonym uint32 = "32 word"

definition K256 :: "uint32 list" where
  "K256 =
     [
      0x428A2F98, 0x71374491, 0xB5C0FBCF, 0xE9B5DBA5,
      0x3956C25B, 0x59F111F1, 0x923F82A4, 0xAB1C5ED5,
      0xD807AA98, 0x12835B01, 0x243185BE, 0x550C7DC3,
      0x72BE5D74, 0x80DEB1FE, 0x9BDC06A7, 0xC19BF174,
      0xE49B69C1, 0xEFBE4786, 0x0FC19DC6, 0x240CA1CC,
      0x2DE92C6F, 0x4A7484AA, 0x5CB0A9DC, 0x76F988DA,
      0x983E5152, 0xA831C66D, 0xB00327C8, 0xBF597FC7,
      0xC6E00BF3, 0xD5A79147, 0x06CA6351, 0x14292967,
      0x27B70A85, 0x2E1B2138, 0x4D2C6DFC, 0x53380D13,
      0x650A7354, 0x766A0ABB, 0x81C2C92E, 0x92722C85,
      0xA2BFE8A1, 0xA81A664B, 0xC24B8B70, 0xC76C51A3,
      0xD192E819, 0xD6990624, 0xF40E3585, 0x106AA070,
      0x19A4C116, 0x1E376C08, 0x2748774C, 0x34B0BCB5,
      0x391C0CB3, 0x4ED8AA4A, 0x5B9CCA4F, 0x682E6FF3,
      0x748F82EE, 0x78A5636F, 0x84C87814, 0x8CC70208,
      0x90BEFFFA, 0xA4506CEB, 0xBEF9A3F7, 0xC67178F2]"

definition init256 :: "uint32 list" where
  "init256 =
     [0x6A09E667, 0xBB67AE85, 0x3C6EF372, 0xA54FF53A,
      0x510E527F, 0x9B05688C, 0x1F83D9AB, 0x5BE0CD19]"

definition Ch :: "uint32 \<Rightarrow> uint32 \<Rightarrow> uint32 \<Rightarrow> uint32" where
  "Ch x y z = (x AND y) XOR (NOT x AND z)"

definition Maj :: "uint32 \<Rightarrow> uint32 \<Rightarrow> uint32 \<Rightarrow> uint32" where
  "Maj x y z = (x AND y) XOR (x AND z) XOR (y AND z)"

definition bsig0 :: "uint32 \<Rightarrow> uint32" where
  "bsig0 x = word_rotr 2 x XOR word_rotr 13 x XOR word_rotr 22 x"

definition bsig1 :: "uint32 \<Rightarrow> uint32" where
  "bsig1 x = word_rotr 6 x XOR word_rotr 11 x XOR word_rotr 25 x"

definition ssig0 :: "uint32 \<Rightarrow> uint32" where
  "ssig0 x = word_rotr 7 x XOR word_rotr 18 x XOR drop_bit 3 x"

definition ssig1 :: "uint32 \<Rightarrow> uint32" where
  "ssig1 x = word_rotr 17 x XOR word_rotr 19 x XOR drop_bit 10 x"

definition be_uint32 :: "string \<Rightarrow> uint32" where
  "be_uint32 bs = foldl (\<lambda>acc b. push_bit 8 acc OR of_char b) 0 (take 4 bs)"

definition uint32_bytes :: "uint32 \<Rightarrow> string" where
  "uint32_bytes x =
     [char_of (uint (drop_bit 24 x)), char_of (uint (drop_bit 16 x)),
      char_of (uint (drop_bit 8 x)), char_of (uint x)]"

definition uint64_bytes :: "64 word \<Rightarrow> string" where
  "uint64_bytes x = map (\<lambda>i. char_of (uint (drop_bit (8 * (7 - i)) x))) [0..<8]"

definition padding :: "string \<Rightarrow> string" where
  "padding msg =
     msg @ [char_of (128 :: nat)]
     @ replicate ((119 - length msg mod 64) mod 64) (char_of (0 :: nat))
     @ uint64_bytes (of_nat (8 * length msg))"

primrec schedule :: "nat \<Rightarrow> uint32 list \<Rightarrow> uint32 list" where
  "schedule 0 ws = ws"
| "schedule (Suc n) ws =
     schedule n
       (ws @ [ssig1 (ws ! (length ws - 2)) + ws ! (length ws - 7)
              + ssig0 (ws ! (length ws - 15)) + ws ! (length ws - 16)])"

definition round256 :: "uint32 \<times> uint32 \<Rightarrow> uint32 list \<Rightarrow> uint32 list" where
  "round256 kw s =
     (case s of
        [a, b, c, d, e, f, g, h] \<Rightarrow>
          (let t1 = h + bsig1 e + Ch e f g + fst kw + snd kw;
               t2 = bsig0 a + Maj a b c
           in [t1 + t2, a, b, c, d + t1, e, f, g])
      | _ \<Rightarrow> s)"

definition block256 :: "uint32 list \<Rightarrow> string \<Rightarrow> uint32 list" where
  "block256 h p =
     (let w = schedule 48 (map (\<lambda>i. be_uint32 (drop (4 * i) p)) [0..<16])
      in map2 (+) h (fold round256 (zip K256 w) h))"

definition sha256_Sum :: "string \<Rightarrow> string" where
  "sha256_Sum msg =
     (let p = padding msg;
          h = fold (\<lambda>i h. block256 h (take 64 (drop (64 * i) p))) [0..<length p div 64] init256
      in concat (map uint32_bytes h))"

section \<open>Reading a monitor into the resource data\<close>

text \<open>
  \<open>sha256StateFunc\<close>, and \<open>NRSMonitorRead\<close>: the monitor is fetched, then its script;
  the \<open>switch\<close> on the error of \<open>GetMonitorScript\<close> compares it with the sentinel first
  and with nil second. \<open>set_monitor_attributes\<close> is the sequence of \<open>Set\<close> calls that
  follows the \<open>switch\<close>.
\<close>

definition sha256StateFunc :: "string \<Rightarrow> string" where
  "sha256StateFunc s = sha256_Sum s"

definition set_monitor_attributes :: "Monitor \<Rightarrow> ResourceData \<Rightarrow> ResourceData" where
  "set_monitor_attributes monitor rd =
     (let rd = Set name_attr_update (Some (mon_Name monitor)) rd;
          rd = Set type_attr_update (Some (mon_Type monitor)) rd;
          rd = Set frequency_attr_update (Some (mon_Frequency monitor)) rd;
          rd = Set uri_attr_update (Some (mon_URI monitor)) rd;
          rd = Set locations_attr_update (Some (mon_Locations monitor)) rd;
          rd = Set status_attr_update (Some (mon_Status monitor)) rd;
          rd = Set sla_threshold_attr_update (Some (mon_SLAThreshold monitor)) rd;
          rd = (case mon_ValidationString monitor of
                  Some v \<Rightarrow> Set validation_string_attr_update (Some v) rd
                | None \<Rightarrow> Set validation_string_attr_update None rd);
          rd = (case mon_VerifySSL monitor of
                  Some v \<Rightarrow> Set verify_ssl_attr_update (Some v) rd
                | None \<Rightarrow> Set verify_ssl_attr_update None rd);
          rd = (case mon_BypassHEADRequest monitor of
                  Some v \<Rightarrow> Set bypass_head_request_attr_update (Some v) rd
                | None \<Rightarrow> Set bypass_head_request_attr_update None rd);
          rd = (case mon_TreatRedirectAsFailure monitor of
                  Some v \<Rightarrow> Set treat_redirect_as_failure_attr_update (Some v) rd
                | None \<Rightarrow> Set treat_redirect_as_failure_attr_update None rd)
      in rd)"

definition NRSMonitorRead ::
  "golib \<Rightarrow> synthetics_undeclared \<Rightarrow> Client \<Rightarrow> ResourceData \<Rightarrow> world
     \<Rightarrow> (goerror option \<times> ResourceData) \<times> world" where
  "NRSMonitorRead lib syn client resourceData w =
     (case GetMonitor lib client (Id resourceData) w of
        (Inl err, w1) \<Rightarrow>
          (case errors_Wrap err ''error: could not get monitor'' w1 of
             (e, w2) \<Rightarrow> ((Some e, resourceData), w2))
      | (Inr monitor, w1) \<Rightarrow>
          (case GetMonitorScript syn client (Id resourceData) w1 of
             ((script, err), w2) \<Rightarrow>
               if err = Some (ErrMonitorScriptNotFound syn)
               then ((None,
                      set_monitor_attributes monitor
                        (Set script_locations_attr_update None
                           (Set script_attr_update None resourceData))), w2)
               else
                 (case err of
                    None \<Rightarrow>
                      ((None,
                        set_monitor_attributes monitor
                          (Set script_attr_update (Some (sha256StateFunc script)) resourceData)),
                       w2)
                  | Some err' \<Rightarrow>
                      (case errors_Wrap err' ''error: could not get monitor script'' w2 of
                         (e, w3) \<Rightarrow> ((Some e, resourceData), w3)))))"

section \<open>Requests sent and the final path segment\<close>

text \<open>
  The requests \<open>CreateMonitor\<close> and \<open>GetMonitor\<close> hand to the transport when the URL
  parses.

  The final path segment of a URL, in the words of the specification: the text after
  the last \<open>/\<close> of the URL without its query and fragment.
\<close>

definition CreateMonitor_request :: "Client \<Rightarrow> string \<Rightarrow> Request" where
  "CreateMonitor_request c reqBody =
     \<lparr> req_Method = ''POST'', req_URL = monitors_url,
       req_Header = [(''X-Api-Key'', APIKey c), (''Content-Type'', ''application/json'')],
       req_Form = None, req_Body = Some reqBody \<rparr>"

definition GetMonitor_request :: "Client \<Rightarrow> string \<Rightarrow> Request" where
  "GetMonitor_request c monitor_id =
     \<lparr> req_Method = ''GET'', req_URL = monitors_url @ ''/'' @ monitor_id,
       req_Header = [(''X-Api-Key'', APIKey c)], req_Form = None, req_Body = None \<rparr>"

definition url_path :: "string \<Rightarrow> string" where
  "url_path url = takeWhile (\<lambda>ch. ch \<noteq> CHR ''?'' \<and> ch \<noteq> CHR ''#'') url"

definition final_path_segment :: "string \<Rightarrow> string" where
  "final_path_segment url = rev (takeWhile (\<lambda>ch. ch \<noteq> CHR ''/'') (rev (url_path url)))"

section \<open>Examples\<close>

text \<open>
  Examples: a monitor, library functions, a transport that answers every \<open>POST\<close> with
  one response and every other request with another, the undeclared parts of the
  package with a fixed result of \<open>GetMonitorScript\<close>, a world in which the two
  sentinels are allocated, resource data with a script recorded, and a location on
  another host.
\<close>

definition monitor_example :: Monitor where
  "monitor_example =
     \<lparr> mon_ID = ''abc123'', mon_Name = ''home'', mon_Type = ''SIMPLE'', mon_Frequency = 5,
       mon_URI = ''https://example.com'', mon_Locations = [''US_EAST_1''],
       mon_Status = ''ENABLED'', mon_SLAThreshold = 0x401C000000000000,
       mon_UserID = 0, mon_APIVersion = ''v3'',
       mon_ValidationString = None, mon_VerifySSL = Some False,
       mon_BypassHEADRequest = None, mon_TreatRedirectAsFailure = None \<rparr>"

definition lib_example :: golib where
  "lib_example =
     \<lparr> url_Parse = (\<lambda>url. None),
       time_Parse = (\<lambda>s. if s = [] then Inl ''cannot parse'' else Inr (0, 0)),
       json_Encode = (\<lambda>m. Inr ''{}''),
       json_Decode_Monitor = (\<lambda>body. if body = ''{id: abc123}'' then Inr monitor_example
                                      else Inl ''unexpected end of JSON input''),
       json_Decode_GetAllMonitorsResponse = (\<lambda>body. Inr \<lparr>Monitors = [], Count = 0\<rparr>) \<rparr>"

definition reply :: "int \<Rightarrow> string \<Rightarrow> string \<Rightarrow> Response" where
  "reply code location body =
     \<lparr> resp_StatusCode = code,
       resp_Header = (if location = [] then Map.empty else [''Location'' \<mapsto> [location]]),
       resp_Body = body \<rparr>"

definition client_example :: "Response \<Rightarrow> Response \<Rightarrow> Client" where
  "client_example created fetched =
     \<lparr> APIKey = ''key'',
       HTTPClient = (\<lambda>history request.
         if req_Method request = ''POST'' then Inr created else Inr fetched) \<rparr>"

definition syn_example :: "string \<times> goerror option \<Rightarrow> synthetics_undeclared" where
  "syn_example r =
     \<lparr> ErrMonitorNotFound = Fundamental 0 ''error: monitor not found'',
       ErrMonitorScriptNotFound = Fundamental 1 ''error: monitor script not found'',
       GetMonitorScript = (\<lambda>client monitor_id w. (r, w)) \<rparr>"

definition world_example :: world where
  "world_example = \<lparr> next_addr = 2, sent = [] \<rparr>"

definition rd_read_example :: ResourceData where
  "rd_read_example =
     \<lparr> Id = ''abc123'',
       prior = no_attributes,
       current = no_attributes\<lparr> script_attr := Some ''old digest'',
                                script_locations_attr := Some [(''private'', ''secret'')] \<rparr> \<rparr>"

definition other_host_location :: string where
  "other_host_location = ''https://syntheticsXnewrelic.com/synthetics/api/v3/monitors/abc123''"

section \<open>Properties of the arguments\<close>

lemma update_required_members:
  "upd_Name (NRSMonitorUpdate_args rd) = Get [] name_attr rd"
  "upd_Frequency (NRSMonitorUpdate_args rd) = Get 0 frequency_attr rd"
  "upd_URI (NRSMonitorUpdate_args rd) = Get [] uri_attr rd"
  "upd_Locations (NRSMonitorUpdate_args rd) = Get [] locations_attr rd"
  "upd_Status (NRSMonitorUpdate_args rd) = Get [] status_attr rd"
  "upd_SLAThreshold (NRSMonitorUpdate_args rd) = Get 0 sla_threshold_attr rd"
  by (simp_all add: NRSMonitorUpdate_args_def Let_def)

lemma update_members_keys:
  "map fst (UpdateMonitorArgs_members a) =
     [''Name'', ''Frequency'', ''URI'', ''Locations'', ''Status'', ''SLAThreshold'']
     @ (if upd_ValidationString a = None then [] else [''ValidationString''])
     @ (if upd_VerifySSL a = None then [] else [''VerifySSL''])
     @ (if upd_BypassHEADRequest a = None then [] else [''BypassHEADRequest''])
     @ (if upd_TreatRedirectAsFailure a = None then [] else [''TreatRedirectAsFailure''])"
  by (simp add: UpdateMonitorArgs_members_def opt_member_def split: option.splits)

text \<open>
  Claim C6. For every resource data, the arguments \<open>NRSMonitorUpdate\<close> passes to
  \<open>UpdateMonitor\<close> have no member \<open>Type\<close>, and their members \<open>Name\<close>, \<open>Frequency\<close>,
  \<open>URI\<close>, \<open>Locations\<close>, \<open>Status\<close> and \<open>SLAThreshold\<close> are always there, holding the values
  \<open>Get\<close> reads for \<open>name\<close>, \<open>frequency\<close>, \<open>uri\<close>, \<open>locations\<close>, \<open>status\<close> and
  \<open>sla_threshold\<close>.
\<close>

theorem update_args_required_without_type:
  "''Type'' \<notin> set (map fst (UpdateMonitorArgs_members (NRSMonitorUpdate_args rd)))
   \<and> map_of (UpdateMonitorArgs_members (NRSMonitorUpdate_args rd)) ''Type'' = None
   \<and> map_of (UpdateMonitorArgs_members (NRSMonitorUpdate_args rd)) ''Name''
       = Some (MString (Get [] name_attr rd))
   \<and> map_of (UpdateMonitorArgs_members (NRSMonitorUpdate_args rd)) ''Frequency''
       = Some (MUint (Get 0 frequency_attr rd))
   \<and> map_of (UpdateMonitorArgs_members (NRSMonitorUpdate_args rd)) ''URI''
       = Some (MString (Get [] uri_attr rd))
   \<and> map_of (UpdateMonitorArgs_members (NRSMonitorUpdate_args rd)) ''Locations''
       = Some (MStrings (Get [] locations_attr rd))
   \<and> map_of (UpdateMonitorArgs_members (NRSMonitorUpdate_args rd)) ''Status''
       = Some (MString (Get [] status_attr rd))
   \<and> map_of (UpdateMonitorArgs_members (NRSMonitorUpdate_args rd)) ''SLAThreshold''
       = Some (MFloat (Get 0 sla_threshold_attr rd))"
proof -
  let ?a = "NRSMonitorUpdate_args rd"
  have keys: "''Type'' \<notin> set (map fst (UpdateMonitorArgs_members ?a))"
    unfolding update_members_keys by simp
  then have "''Type'' \<notin> fst ` set (UpdateMonitorArgs_members ?a)"
    by simp
  then have none: "map_of (UpdateMonitorArgs_members ?a) ''Type'' = None"
    by (simp add: map_of_eq_None_iff)
  have req:
    "map_of (UpdateMonitorArgs_members ?a) ''Name'' = Some (MString (upd_Name ?a))"
    "map_of (UpdateMonitorArgs_members ?a) ''Frequency'' = Some (MUint (upd_Frequency ?a))"
    "map_of (UpdateMonitorArgs_members ?a) ''URI'' = Some (MString (upd_URI ?a))"
    "map_of (UpdateMonitorArgs_members ?a) ''Locations'' = Some (MStrings (upd_Locations ?a))"
    "map_of (UpdateMonitorArgs_members ?a) ''Status'' = Some (MString (upd_Status ?a))"
    "map_of (UpdateMonitorArgs_members ?a) ''SLAThreshold'' = Some (MFloat (upd_SLAThreshold ?a))"
    by (simp_all add: UpdateMonitorArgs_members_def)
  show ?thesis
    using keys none req by (simp only: update_required_members) simp
qed

text \<open>
  Claim C4, as the spec states it, fails: a validation string changed to the empty
  string is changed, and \<open>NRSMonitorUpdate\<close> leaves it out of the arguments.
\<close>

theorem update_empty_validation_string_counterexample:
  "HasChange [] validation_string_attr rd_update_example
   \<and> validation_string_attr (current rd_update_example) = Some []
   \<and> upd_ValidationString (NRSMonitorUpdate_args rd_update_example) = None"
  by (simp add: rd_update_example_def no_attributes_def NRSMonitorUpdate_args_def
      HasChange_def Get_def GetOld_def Let_def)

text \<open>
  Claim C4, amended. For every resource data, \<open>NRSMonitorUpdate\<close> passes \<open>VerifySSL\<close>,
  \<open>BypassHEADRequest\<close> and \<open>TreatRedirectAsFailure\<close> exactly when \<open>HasChange\<close> reports
  the attribute changed, with the value \<open>Get\<close> reads (also when it is false), and
  passes \<open>ValidationString\<close> exactly when the attribute changed and its value is not the
  empty string; a member that is not passed is nil.
\<close>

theorem update_args_optional_members:
  "upd_ValidationString (NRSMonitorUpdate_args rd)
     = (if HasChange [] validation_string_attr rd \<and> Get [] validation_string_attr rd \<noteq> []
        then Some (Get [] validation_string_attr rd) else None)
   \<and> upd_VerifySSL (NRSMonitorUpdate_args rd)
     = (if HasChange False verify_ssl_attr rd
        then Some (Get False verify_ssl_attr rd) else None)
   \<and> upd_BypassHEADRequest (NRSMonitorUpdate_args rd)
     = (if HasChange False bypass_head_request_attr rd
        then Some (Get False bypass_head_request_attr rd) else None)
   \<and> upd_TreatRedirectAsFailure (NRSMonitorUpdate_args rd)
     = (if HasChange False treat_redirect_as_failure_attr rd
        then Some (Get False treat_redirect_as_failure_attr rd) else None)"
  by (simp add: NRSMonitorUpdate_args_def Let_def)

theorem update_args_optional_members_witness:
  "upd_ValidationString (NRSMonitorUpdate_args rd_update_example) = None
   \<and> upd_VerifySSL (NRSMonitorUpdate_args rd_update_example) = Some False
   \<and> upd_BypassHEADRequest (NRSMonitorUpdate_args rd_update_example) = None
   \<and> upd_TreatRedirectAsFailure (NRSMonitorUpdate_args rd_update_example) = None"
  using update_args_optional_members [of rd_update_example]
  by (simp add: rd_update_example_def no_attributes_def HasChange_def Get_def GetOld_def)

text \<open>
  Claim C5, as the spec states it, fails: \<open>verify_ssl\<close> present with the value false
  and \<open>validation_string\<close> present with the empty string are in the desired
  attributes, and \<open>NRSMonitorCreate\<close> sends neither.
\<close>

theorem create_present_false_counterexample:
  "verify_ssl_attr (current rd_create_example) = Some False
   \<and> crt_VerifySSL (NRSMonitorCreate_args rd_create_example) = None
   \<and> validation_string_attr (current rd_create_example) = Some []
   \<and> crt_ValidationString (NRSMonitorCreate_args rd_create_example) = None"
  by (simp add: rd_create_example_def no_attributes_def NRSMonitorCreate_args_def
      GetOk_def Get_def Let_def)

text \<open>
  Claim C5, amended. For every resource data, \<open>NRSMonitorCreate\<close> passes an optional
  member exactly when the attribute is present with a value other than the zero value
  of its type: a boolean attribute is sent when it is present and true, the validation
  string when it is present and not empty; an absent attribute, a present false and a
  present empty string are not sent (the member is nil).
\<close>

theorem create_args_optional_members:
  "crt_ValidationString (NRSMonitorCreate_args rd)
     = (case validation_string_attr (current rd) of
          None \<Rightarrow> None | Some s \<Rightarrow> if s = [] then None else Some s)
   \<and> crt_VerifySSL (NRSMonitorCreate_args rd)
     = (if verify_ssl_attr (current rd) = Some True then Some True else None)
   \<and> crt_BypassHEADRequest (NRSMonitorCreate_args rd)
     = (if bypass_head_request_attr (current rd) = Some True then Some True else None)
   \<and> crt_TreatRedirectAsFailure (NRSMonitorCreate_args rd)
     = (if treat_redirect_as_failure_attr (current rd) = Some True then Some True else None)"
  by (auto simp add: NRSMonitorCreate_args_def GetOk_def Get_def Let_def split: option.splits)

theorem create_args_optional_members_witness:
  "crt_ValidationString (NRSMonitorCreate_args rd_create_example) = None
   \<and> crt_VerifySSL (NRSMonitorCreate_args rd_create_example) = None
   \<and> crt_BypassHEADRequest (NRSMonitorCreate_args rd_create_example) = Some True
   \<and> crt_TreatRedirectAsFailure (NRSMonitorCreate_args rd_create_example) = None"
  using create_args_optional_members [of rd_create_example]
  by (simp add: rd_create_example_def no_attributes_def)

section \<open>Properties of GetMonitor and NRSMonitorExists\<close>

lemmas client_defs =
  GetMonitor_def getRequest_def http_NewRequest_def Do_def fail_new_def fail_wrap_def
  errors_New_def errors_Wrap_def Header_Add_def Header_Set_def Header_Get_def monitors_url_def

lemma getRequest_result:
  "getRequest lib c method url body w =
     (case url_Parse lib url of
        Some message \<Rightarrow>
          (Inl (Wrapped (next_addr w) (Foreign message)
                  ''error: Synthetics request could not be created''),
           w\<lparr>next_addr := Suc (next_addr w)\<rparr>)
      | None \<Rightarrow>
          (Inr \<lparr> req_Method = method, req_URL = url,
                 req_Header = [(''X-Api-Key'', APIKey c)], req_Form = None, req_Body = body \<rparr>,
           w))"
  by (simp add: getRequest_def http_NewRequest_def fail_wrap_def errors_Wrap_def Header_Add_def
      split: option.splits)

lemma fail_new_result:
  "fail_new message w = (Inl (Fundamental (next_addr w) message), w\<lparr>next_addr := Suc (next_addr w)\<rparr>)"
  by (simp add: fail_new_def errors_New_def)

lemma fail_wrap_result:
  "fail_wrap err message w =
     (Inl (Wrapped (next_addr w) err message), w\<lparr>next_addr := Suc (next_addr w)\<rparr>)"
  by (simp add: fail_wrap_def errors_Wrap_def)

lemma allocated_before_address:
  "allocated_before n e \<Longrightarrow> address e = Some a \<Longrightarrow> a < n"
  by (cases e) auto

lemma GetMonitor_error_address:
  assumes "GetMonitor lib c monitor_id w = (Inl e, w1)"
  shows "\<exists>a. address e = Some a \<and> next_addr w \<le> a"
  using assms
  by (auto simp add: GetMonitor_def getRequest_result fail_new_result fail_wrap_result Do_def
      split: if_splits option.splits sum.splits prod.splits)

lemma GetMonitor_error_not_allocated_before:
  assumes "GetMonitor lib c monitor_id w = (Inl e, w1)"
  shows "\<not> allocated_before (next_addr w) e"
  using GetMonitor_error_address [OF assms] allocated_before_address [of "next_addr w" e]
  by fastforce

lemma GetMonitor_not_found:
  assumes "monitor_id \<noteq> []"
    and "url_Parse lib (monitors_url @ ''/'' @ monitor_id) = None"
    and "HTTPClient c (sent w)
           \<lparr> req_Method = ''GET'', req_URL = monitors_url @ ''/'' @ monitor_id,
             req_Header = [(''X-Api-Key'', APIKey c)], req_Form = None, req_Body = None \<rparr>
         = Inr response"
    and "resp_StatusCode response = 404"
  shows "fst (GetMonitor lib c monitor_id w)
         = Inl (Fundamental (next_addr w) ''error: could not find monitor'')"
  using assms
  by (simp add: GetMonitor_def getRequest_result fail_new_result Do_def)

lemma NRSMonitorExists_found:
  "GetMonitor lib client (Id rd) w = (Inr monitor, w1) \<Longrightarrow>
   NRSMonitorExists lib syn client rd w = ((True, None), w1)"
  by (simp add: NRSMonitorExists_def)

lemma NRSMonitorExists_sentinel:
  "GetMonitor lib client (Id rd) w = (Inl (ErrMonitorNotFound syn), w1) \<Longrightarrow>
   NRSMonitorExists lib syn client rd w = ((False, None), w1)"
  by (simp add: NRSMonitorExists_def)

lemma NRSMonitorExists_other_error:
  "GetMonitor lib client (Id rd) w = (Inl err, w1) \<Longrightarrow> err \<noteq> ErrMonitorNotFound syn \<Longrightarrow>
   NRSMonitorExists lib syn client rd w
     = ((False, Some (Wrapped (next_addr w1) err ''error: could not get monitor'')),
        w1\<lparr>next_addr := Suc (next_addr w1)\<rparr>)"
  by (simp add: NRSMonitorExists_def errors_Wrap_def)

lemma NRSMonitorExists_never_absent:
  assumes "allocated_before (next_addr w) (ErrMonitorNotFound syn)"
  shows "fst (NRSMonitorExists lib syn client rd w) \<noteq> (False, None)"
proof (cases "GetMonitor lib client (Id rd) w")
  case (Pair r w1)
  show ?thesis
  proof (cases r)
    case (Inl err)
    with Pair have "\<not> allocated_before (next_addr w) err"
      by (simp add: GetMonitor_error_not_allocated_before)
    with assms have "err \<noteq> ErrMonitorNotFound syn"
      by auto
    with Pair Inl show ?thesis
      by (simp add: NRSMonitorExists_other_error)
  next
    case (Inr monitor)
    with Pair show ?thesis
      by (simp add: NRSMonitorExists_found)
  qed
qed

lemma GetMonitor_example:
  "GetMonitor lib_example (client_example (reply 0 [] []) (reply 200 [] ''{id: abc123}''))
     (Id rd_read_example) world_example
   = (Inr monitor_example,
      world_example\<lparr>sent := [GetMonitor_request
                                (client_example (reply 0 [] []) (reply 200 [] ''{id: abc123}''))
                                ''abc123'']\<rparr>)"
  by (simp add: client_defs lib_example_def client_example_def reply_def world_example_def
      GetMonitor_request_def rd_read_example_def)

text \<open>
  Claim C1, as the spec states it, fails on two counts. At a 404 \<open>GetMonitor\<close> makes a
  new error with \<open>errors.New\<close>, which is not the sentinel \<open>ErrMonitorNotFound\<close>
  allocated before the call, so \<open>NRSMonitorExists\<close> returns \<open>false\<close> with an error, not
  \<open>(false, nil)\<close>. At a 500 the error \<open>NRSMonitorExists\<close> returns is not the error of
  \<open>GetMonitor\<close> but that error wrapped.
\<close>

theorem exists_counterexample:
  "fst (GetMonitor lib_example (client_example (reply 0 [] []) (reply 404 [] []))
          (Id rd_read_example) world_example)
     = Inl (Fundamental 2 ''error: could not find monitor'')
   \<and> allocated_before (next_addr world_example) (ErrMonitorNotFound (syn_example ([], None)))
   \<and> fst (NRSMonitorExists lib_example (syn_example ([], None))
            (client_example (reply 0 [] []) (reply 404 [] []))
            rd_read_example world_example)
     = (False, Some (Wrapped 3 (Fundamental 2 ''error: could not find monitor'')
                       ''error: could not get monitor''))
   \<and> fst (GetMonitor lib_example (client_example (reply 0 [] []) (reply 500 [] ''down''))
          (Id rd_read_example) world_example)
     = Inl (Fundamental 2
              ''error: invalid response from GetMonitor with code 500. Message: down'')
   \<and> snd (fst (NRSMonitorExists lib_example (syn_example ([], None))
            (client_example (reply 0 [] []) (reply 500 [] ''down''))
            rd_read_example world_example))
     \<noteq> Some (Fundamental 2
               ''error: invalid response from GetMonitor with code 500. Message: down'')"
  by (simp add: NRSMonitorExists_def client_defs lib_example_def client_example_def reply_def
      world_example_def syn_example_def rd_read_example_def Itoa_def digits.simps)

text \<open>
  Claim C1, amended. For every id, \<open>NRSMonitorExists\<close> returns \<open>(true, nil)\<close> when
  \<open>GetMonitor\<close> succeeds, \<open>(false, nil)\<close> when the error \<open>GetMonitor\<close> returns is the
  sentinel \<open>ErrMonitorNotFound\<close> itself, and for every other error of \<open>GetMonitor\<close>
  returns \<open>false\<close> with that error wrapped by \<open>errors.Wrap\<close> under the message
  \<open>error: could not get monitor\<close>: the cause is kept and the message is put in front of
  the error's text.
\<close>

theorem exists_result:
  assumes "GetMonitor lib client (Id rd) w = (r, w1)"
  shows "fst (NRSMonitorExists lib syn client rd w) =
     (case r of
        Inr monitor \<Rightarrow> (True, None)
      | Inl err \<Rightarrow>
          if err = ErrMonitorNotFound syn then (False, None)
          else (False, Some (Wrapped (next_addr w1) err ''error: could not get monitor'')))
     \<and> (\<forall>err. Cause (Wrapped (next_addr w1) err ''error: could not get monitor'') = Cause err
             \<and> Error (Wrapped (next_addr w1) err ''error: could not get monitor'')
                 = ''error: could not get monitor: '' @ Error err)"
  using assms
  by (cases r)
    (simp_all add: NRSMonitorExists_found NRSMonitorExists_sentinel NRSMonitorExists_other_error)

theorem exists_result_witness:
  "fst (NRSMonitorExists lib_example (syn_example ([], None))
          (client_example (reply 0 [] []) (reply 200 [] ''{id: abc123}''))
          rd_read_example world_example) = (True, None)
   \<and> fst (NRSMonitorExists lib_example (syn_example ([], None))
          (client_example (reply 0 [] []) (reply 500 [] ''down''))
          rd_read_example world_example)
     = (False, Some (Wrapped 3
          (Fundamental 2 ''error: invalid response from GetMonitor with code 500. Message: down'')
          ''error: could not get monitor''))"
proof -
  let ?c = "client_example (reply 0 [] []) (reply 500 [] ''down'')"
  have g: "GetMonitor lib_example ?c (Id rd_read_example) world_example
     = (Inl (Fundamental 2
               ''error: invalid response from GetMonitor with code 500. Message: down''),
        \<lparr> next_addr = 3, sent = [GetMonitor_request ?c ''abc123''] \<rparr>)"
    by (simp add: client_defs lib_example_def client_example_def reply_def world_example_def
        GetMonitor_request_def rd_read_example_def Itoa_def digits.simps)
  show ?thesis
    using exists_result [OF GetMonitor_example, of "syn_example ([], None)"]
      exists_result [OF g, of "syn_example ([], None)"]
    by (simp add: syn_example_def)
qed

section \<open>Properties of CreateMonitor\<close>

lemma DecodeRune_width_ascii: "(of_char c :: nat) < 128 \<Longrightarrow> DecodeRune_width (c # cs) = 1"
  by simp

lemma match_prefix_itself:
  "match_prefix p (p @ rest) = Some rest"
proof (induction p)
  case Nil
  show ?case by simp
next
  case (Cons c p)
  show ?case
  proof (cases "c = CHR ''.''")
    case True
    have "DecodeRune_width (CHR ''.'' # p @ rest) = 1"
      by (rule DecodeRune_width_ascii) simp
    with True Cons show ?thesis
      by (simp add: newline_def)
  next
    case False
    with Cons show ?thesis by simp
  qed
qed

lemma FindAllStringSubmatch_wellformed:
  assumes "monitor_id \<noteq> []" and "newline \<notin> set monitor_id"
  shows "monitorURL_FindAllStringSubmatch (monitorURL_prefix @ monitor_id)
         = [[monitorURL_prefix @ monitor_id, monitor_id]]"
  using assms by (simp add: monitorURL_FindAllStringSubmatch_def match_prefix_itself)

lemma FindAllStringSubmatch_shape:
  "monitorURL_FindAllStringSubmatch s = [] \<or>
   (\<exists>rest. monitorURL_FindAllStringSubmatch s = [[s, rest]] \<and> rest \<noteq> [] \<and> newline \<notin> set rest)"
  by (simp add: monitorURL_FindAllStringSubmatch_def split: option.splits)

lemma FindAllStringSubmatch_empty: "monitorURL_FindAllStringSubmatch [] = []"
  by (simp add: monitorURL_FindAllStringSubmatch_def monitorURL_prefix_def)

lemma Header_Get_absent: "h k = None \<Longrightarrow> Header_Get h k = []"
  by (simp add: Header_Get_def)

lemma monitorURL_prefix_monitors_url: "monitorURL_prefix = monitors_url @ ''/''"
  by (simp add: monitorURL_prefix_def monitors_url_def)

lemma final_path_segment_wellformed:
  assumes "\<forall>ch \<in> set monitor_id. ch \<noteq> CHR ''/'' \<and> ch \<noteq> CHR ''?'' \<and> ch \<noteq> CHR ''#''"
  shows "final_path_segment (monitorURL_prefix @ monitor_id) = monitor_id"
proof -
  have "\<forall>ch \<in> set (monitorURL_prefix @ monitor_id). ch \<noteq> CHR ''?'' \<and> ch \<noteq> CHR ''#''"
    using assms by (auto simp add: monitorURL_prefix_def)
  then have path: "url_path (monitorURL_prefix @ monitor_id) = monitorURL_prefix @ monitor_id"
    unfolding url_path_def by (intro takeWhile_eq_all_conv [THEN iffD2])
  have "takeWhile (\<lambda>ch. ch \<noteq> CHR ''/'') (rev monitor_id @ CHR ''/'' # rev monitors_url)
        = rev monitor_id"
    using assms by (simp add: takeWhile_tail)
  then have "takeWhile (\<lambda>ch. ch \<noteq> CHR ''/'') (rev (monitorURL_prefix @ monitor_id))
        = rev monitor_id"
    by (simp add: monitorURL_prefix_monitors_url)
  then show ?thesis
    by (simp add: final_path_segment_def path)
qed

lemma CreateMonitor_after_response:
  assumes "json_Encode lib m = Inr reqBody"
    and "url_Parse lib monitors_url = None"
    and "HTTPClient c (sent w) (CreateMonitor_request c reqBody) = Inr response"
  shows "CreateMonitor lib c m w =
     (let w2 = w\<lparr>sent := sent w @ [CreateMonitor_request c reqBody]\<rparr> in
      if resp_StatusCode response \<noteq> 201
      then fail_new (''error: invalid response from CreateMonitor with code ''
                     @ Itoa (resp_StatusCode response) @ ''. Message: '' @ resp_Body response) w2
      else
        (case monitorURL_FindAllStringSubmatch (Header_Get (resp_Header response) ''Location'') of
           [] \<Rightarrow> fail_new ''error: could not find an ID for monitor in location header'' w2
         | match # _ \<Rightarrow>
             (case GetMonitor lib c (match ! 1) w2 of
                (Inl err, w3) \<Rightarrow>
                  fail_wrap err (''error: could not get metadata for monitor: '' @ match ! 1) w3
              | (Inr monitor, w3) \<Rightarrow> (Inr monitor, w3))))"
  using assms
  by (auto simp add: CreateMonitor_def getRequest_result Header_Set_def Do_def
      CreateMonitor_request_def Let_def split: list.splits prod.splits sum.splits)

lemma CreateMonitor_unmatched_location:
  assumes "json_Encode lib m = Inr reqBody"
    and "url_Parse lib monitors_url = None"
    and "HTTPClient c (sent w) (CreateMonitor_request c reqBody) = Inr response"
    and "resp_StatusCode response = 201"
    and "monitorURL_FindAllStringSubmatch (Header_Get (resp_Header response) ''Location'') = []"
  shows "fst (CreateMonitor lib c m w)
         = Inl (Fundamental (next_addr w)
                  ''error: could not find an ID for monitor in location header'')"
  using assms by (simp add: CreateMonitor_after_response fail_new_result)

lemma CreateMonitor_absent_location:
  assumes "json_Encode lib m = Inr reqBody"
    and "url_Parse lib monitors_url = None"
    and "HTTPClient c (sent w) (CreateMonitor_request c reqBody) = Inr response"
    and "resp_StatusCode response = 201"
    and "resp_Header response ''Location'' = None \<or> Header_Get (resp_Header response) ''Location'' = []"
  shows "fst (CreateMonitor lib c m w)
         = Inl (Fundamental (next_addr w)
                  ''error: could not find an ID for monitor in location header'')"
proof -
  from assms(5) have "Header_Get (resp_Header response) ''Location'' = []"
    by (auto simp add: Header_Get_absent)
  then show ?thesis
    using assms(1-4) by (simp add: CreateMonitor_unmatched_location FindAllStringSubmatch_empty)
qed

text \<open>
  Claim C2. The claim: \<open>CreateMonitor\<close> fails, and returns no monitor, whenever the
  \<open>Location\<close> header is absent, empty or not of the shape
  \<open>https://synthetics.newrelic.com/synthetics/api/v3/monitors/<id>\<close>. The two lemmas
  above prove it for an absent or empty header and for every header \<open>monitorURL\<close> does
  not match. The dots of \<open>monitorURL\<close> are not escaped, though: a location on the host
  \<open>syntheticsXnewrelic.com\<close> does not start with the fixed prefix, is matched, and
  \<open>CreateMonitor\<close> returns the monitor of the follow-up \<open>GetMonitor\<close>.
\<close>

theorem create_accepts_location_of_other_host:
  "take (length monitorURL_prefix) other_host_location \<noteq> monitorURL_prefix
   \<and> fst (CreateMonitor lib_example
            (client_example (reply 201 other_host_location [])
                            (reply 200 [] ''{id: abc123}''))
            (NRSMonitorCreate_args rd_create_example) world_example)
     = Inr monitor_example"
  by (simp add: CreateMonitor_def monitorURL_FindAllStringSubmatch_def monitorURL_prefix_def
      other_host_location_def newline_def client_defs lib_example_def client_example_def
      reply_def world_example_def)

text \<open>
  Claim C3. For every create whose request was answered with status 201 and a
  \<open>Location\<close> header made of the fixed prefix and a non-empty id that is one path
  segment (no \<open>/\<close>, \<open>?\<close>, \<open>#\<close> or newline in it), the id \<open>CreateMonitor\<close> takes from the
  match is that id, which is the final path segment of the location, and what
  \<open>CreateMonitor\<close> returns is what the follow-up \<open>GetMonitor\<close> of that id returns (its
  monitor, or its error wrapped); the body of the creation response is not read.
\<close>

theorem create_returns_follow_up_get:
  assumes "json_Encode lib m = Inr reqBody"
    and "url_Parse lib monitors_url = None"
    and "HTTPClient c (sent w) (CreateMonitor_request c reqBody) = Inr response"
    and "resp_StatusCode response = 201"
    and "Header_Get (resp_Header response) ''Location'' = monitorURL_prefix @ monitor_id"
    and "monitor_id \<noteq> []"
    and "\<forall>ch \<in> set monitor_id.
           ch \<noteq> newline \<and> ch \<noteq> CHR ''/'' \<and> ch \<noteq> CHR ''?'' \<and> ch \<noteq> CHR ''#''"
  shows "monitorURL_FindAllStringSubmatch (monitorURL_prefix @ monitor_id) ! 0 ! 1 = monitor_id
     \<and> final_path_segment (monitorURL_prefix @ monitor_id) = monitor_id
     \<and> CreateMonitor lib c m w =
         (case GetMonitor lib c monitor_id
                 (w\<lparr>sent := sent w @ [CreateMonitor_request c reqBody]\<rparr>) of
            (Inl err, w3) \<Rightarrow>
              fail_wrap err (''error: could not get metadata for monitor: '' @ monitor_id) w3
          | (Inr monitor, w3) \<Rightarrow> (Inr monitor, w3))"
proof -
  from assms(7) have nl: "newline \<notin> set monitor_id"
    by auto
  have found: "monitorURL_FindAllStringSubmatch (monitorURL_prefix @ monitor_id)
               = [[monitorURL_prefix @ monitor_id, monitor_id]]"
    using assms(6) nl by (rule FindAllStringSubmatch_wellformed)
  have seg: "final_path_segment (monitorURL_prefix @ monitor_id) = monitor_id"
    using assms(7) by (simp add: final_path_segment_wellformed)
  have "CreateMonitor lib c m w =
         (case GetMonitor lib c monitor_id
                 (w\<lparr>sent := sent w @ [CreateMonitor_request c reqBody]\<rparr>) of
            (Inl err, w3) \<Rightarrow>
              fail_wrap err (''error: could not get metadata for monitor: '' @ monitor_id) w3
          | (Inr monitor, w3) \<Rightarrow> (Inr monitor, w3))"
    using assms(4,5) found
    by (simp add: CreateMonitor_after_response [OF assms(1-3)] Let_def
        split: prod.splits sum.splits)
  with found seg show ?thesis
    by simp
qed

theorem create_returns_follow_up_get_witness:
  "fst (CreateMonitor lib_example
          (client_example (reply 201 (monitorURL_prefix @ ''abc123'') ''ignored'')
                          (reply 200 [] ''{id: abc123}''))
          (NRSMonitorCreate_args rd_create_example) world_example)
     = Inr monitor_example
   \<and> final_path_segment (monitorURL_prefix @ ''abc123'') = ''abc123''
   \<and> monitorURL_FindAllStringSubmatch (monitorURL_prefix @ ''abc123'') ! 0 ! 1 = ''abc123''"
proof -
  let ?c = "client_example (reply 201 (monitorURL_prefix @ ''abc123'') ''ignored'')
                           (reply 200 [] ''{id: abc123}'')"
  let ?m = "NRSMonitorCreate_args rd_create_example"
  have 1: "json_Encode lib_example ?m = Inr ''{}''"
    by (simp add: lib_example_def)
  have 2: "url_Parse lib_example monitors_url = None"
    by (simp add: lib_example_def)
  have 3: "HTTPClient ?c (sent world_example) (CreateMonitor_request ?c ''{}'')
           = Inr (reply 201 (monitorURL_prefix @ ''abc123'') ''ignored'')"
    by (simp add: client_example_def CreateMonitor_request_def)
  have 4: "resp_StatusCode (reply 201 (monitorURL_prefix @ ''abc123'') ''ignored'') = 201"
    by (simp add: reply_def)
  have 5: "Header_Get (resp_Header (reply 201 (monitorURL_prefix @ ''abc123'') ''ignored''))
             ''Location'' = monitorURL_prefix @ ''abc123''"
    by (simp add: reply_def Header_Get_def monitorURL_prefix_def)
  have 6: "''abc123'' \<noteq> []"
    by simp
  have 7: "\<forall>ch \<in> set ''abc123''.
             ch \<noteq> newline \<and> ch \<noteq> CHR ''/'' \<and> ch \<noteq> CHR ''?'' \<and> ch \<noteq> CHR ''#''"
    by (simp add: newline_def)
  have get: "GetMonitor lib_example ?c ''abc123''
               (world_example\<lparr>sent := sent world_example @ [CreateMonitor_request ?c ''{}'']\<rparr>)
             = (Inr monitor_example,
                world_example\<lparr>sent := sent world_example
                                  @ [CreateMonitor_request ?c ''{}'',
                                     GetMonitor_request ?c ''abc123'']\<rparr>)"
    by (simp add: client_defs lib_example_def client_example_def reply_def world_example_def
        CreateMonitor_request_def GetMonitor_request_def)
  show ?thesis
    using create_returns_follow_up_get [OF 1 2 3 4 5 6 7] get
    by simp
qed

section \<open>Properties of GetAllMonitors\<close>

lemma GetAllMonitors_request_result:
  assumes "url_Parse lib monitors_url = None"
  shows "GetAllMonitors_request lib c configs w =
     (let requestArgs = fold (\<lambda>config args. config args) configs \<lparr>Offset = 0, Limit = 0\<rparr> in
      if Offset requestArgs = 0 \<and> Limit requestArgs = 0
      then (Return (Inr \<lparr> req_Method = ''GET'', req_URL = monitors_url,
                           req_Header = [(''X-Api-Key'', APIKey c)],
                           req_Form = None, req_Body = None \<rparr>), w)
      else (Panic ''assignment to entry in nil map'', w))"
  using assms
  by (auto simp add: GetAllMonitors_request_def getRequest_result Values_Add_def Let_def
      word_gt_0)

text \<open>
  Claim C9. The claim: \<open>GetAllMonitors\<close> adds the \<open>offset\<close> and \<open>limit\<close> parameters to
  the request exactly when they are not zero, and never fails in doing so. What the
  code does: \<open>request.Form\<close> of a request made by \<open>http.NewRequest\<close> is a nil map, and
  \<open>Form.Add\<close> panics on it; by the lemma above the request is built only when both are
  zero. With an offset of 1, and with a limit of 10, \<open>GetAllMonitors\<close> panics before
  the transport is called.
\<close>

theorem get_all_monitors_offset_panics:
  "GetAllMonitors lib_example (client_example (reply 200 [] []) (reply 200 [] []))
     [\<lambda>args. args\<lparr>Offset := 1\<rparr>] world_example
     = (Panic ''assignment to entry in nil map'', world_example)
   \<and> GetAllMonitors lib_example (client_example (reply 200 [] []) (reply 200 [] []))
     [\<lambda>args. args\<lparr>Limit := 10\<rparr>] world_example
     = (Panic ''assignment to entry in nil map'', world_example)
   \<and> fst (GetAllMonitors lib_example (client_example (reply 200 [] []) (reply 200 [] []))
     [] world_example)
     = Return (Inr \<lparr>Monitors = [], Count = 0\<rparr>)"
  by (simp add: GetAllMonitors_def GetAllMonitors_request_result lib_example_def
      client_example_def reply_def Do_def)

section \<open>Properties of NRSMonitorRead\<close>

lemma set_monitor_attributes_script:
  "script_attr (current (set_monitor_attributes monitor rd)) = script_attr (current rd)"
  "script_locations_attr (current (set_monitor_attributes monitor rd))
     = script_locations_attr (current rd)"
  by (simp_all add: set_monitor_attributes_def Set_def Let_def split: option.splits)

lemma NRSMonitorRead_after_script:
  assumes "GetMonitor lib client (Id rd) w = (Inr monitor, w1)"
    and "GetMonitorScript syn client (Id rd) w1 = ((script, err), w2)"
  shows "NRSMonitorRead lib syn client rd w =
     (if err = Some (ErrMonitorScriptNotFound syn)
      then ((None, set_monitor_attributes monitor
                     (Set script_locations_attr_update None
                        (Set script_attr_update None rd))), w2)
      else case err of
             None \<Rightarrow>
               ((None, set_monitor_attributes monitor
                         (Set script_attr_update (Some (sha256StateFunc script)) rd)), w2)
           | Some err' \<Rightarrow>
               ((Some (Wrapped (next_addr w2) err' ''error: could not get monitor script''), rd),
                w2\<lparr>next_addr := Suc (next_addr w2)\<rparr>))"
  using assms by (simp add: NRSMonitorRead_def errors_Wrap_def split: option.splits)

text \<open>
  Claim C7. For every read in which the monitor was fetched and \<open>GetMonitorScript\<close>
  returned an error: if the error is the sentinel \<open>ErrMonitorScriptNotFound\<close>,
  \<open>NRSMonitorRead\<close> returns no error and both \<open>script\<close> and \<open>script_locations\<close> are
  absent afterwards; if it is any other error, \<open>NRSMonitorRead\<close> returns that error
  wrapped.
\<close>

theorem read_script_not_found:
  assumes "GetMonitor lib client (Id rd) w = (Inr monitor, w1)"
    and "GetMonitorScript syn client (Id rd) w1 = ((script, Some err), w2)"
  shows "if err = ErrMonitorScriptNotFound syn
         then fst (fst (NRSMonitorRead lib syn client rd w)) = None
              \<and> script_attr (current (snd (fst (NRSMonitorRead lib syn client rd w)))) = None
              \<and> script_locations_attr (current (snd (fst (NRSMonitorRead lib syn client rd w))))
                  = None
         else fst (fst (NRSMonitorRead lib syn client rd w))
                = Some (Wrapped (next_addr w2) err ''error: could not get monitor script'')"
  by (simp add: NRSMonitorRead_after_script [OF assms] set_monitor_attributes_script Set_def)

theorem read_script_not_found_witness:
  "fst (fst (NRSMonitorRead lib_example
               (syn_example ([], Some (Fundamental 1 ''error: monitor script not found'')))
               (client_example (reply 0 [] []) (reply 200 [] ''{id: abc123}''))
               rd_read_example world_example)) = None
   \<and> script_attr (current (snd (fst (NRSMonitorRead lib_example
               (syn_example ([], Some (Fundamental 1 ''error: monitor script not found'')))
               (client_example (reply 0 [] []) (reply 200 [] ''{id: abc123}''))
               rd_read_example world_example)))) = None
   \<and> script_locations_attr (current (snd (fst (NRSMonitorRead lib_example
               (syn_example ([], Some (Fundamental 1 ''error: monitor script not found'')))
               (client_example (reply 0 [] []) (reply 200 [] ''{id: abc123}''))
               rd_read_example world_example)))) = None
   \<and> script_locations_attr (current rd_read_example) = Some [(''private'', ''secret'')]
   \<and> fst (fst (NRSMonitorRead lib_example
               (syn_example ([], Some (Foreign ''connection reset'')))
               (client_example (reply 0 [] []) (reply 200 [] ''{id: abc123}''))
               rd_read_example world_example))
       = Some (Wrapped 2 (Foreign ''connection reset'') ''error: could not get monitor script'')"
proof -
  let ?c = "client_example (reply 0 [] []) (reply 200 [] ''{id: abc123}'')"
  let ?w1 = "world_example\<lparr>sent := [GetMonitor_request ?c ''abc123'']\<rparr>"
  let ?e1 = "Fundamental 1 ''error: monitor script not found''"
  let ?e2 = "Foreign ''connection reset''"
  have s1: "GetMonitorScript (syn_example ([], Some ?e1)) ?c (Id rd_read_example) ?w1
            = (([], Some ?e1), ?w1)"
    by (simp add: syn_example_def)
  have s2: "GetMonitorScript (syn_example ([], Some ?e2)) ?c (Id rd_read_example) ?w1
            = (([], Some ?e2), ?w1)"
    by (simp add: syn_example_def)
  show ?thesis
    using read_script_not_found [OF GetMonitor_example s1]
      read_script_not_found [OF GetMonitor_example s2]
    by (simp add: syn_example_def world_example_def rd_read_example_def)
qed




















text \<open>
  Claim C10. For every read in which the monitor was fetched and \<open>GetMonitorScript\<close>
  returned a script and no error, \<open>script_locations\<close> is afterwards what it was before
  the read.
\<close>

theorem read_keeps_script_locations:
  assumes "GetMonitor lib client (Id rd) w = (Inr monitor, w1)"
    and "GetMonitorScript syn client (Id rd) w1 = ((script, None), w2)"
  shows "fst (fst (NRSMonitorRead lib syn client rd w)) = None
     \<and> script_locations_attr (current (snd (fst (NRSMonitorRead lib syn client rd w))))
         = script_locations_attr (current rd)"
  by (simp add: NRSMonitorRead_after_script [OF assms] set_monitor_attributes_script Set_def)

theorem read_keeps_script_locations_witness:
  "script_locations_attr (current (snd (fst (NRSMonitorRead lib_example
               (syn_example (''console.log(1)'', None))
               (client_example (reply 0 [] []) (reply 200 [] ''{id: abc123}''))
               rd_read_example world_example))))
     = Some [(''private'', ''secret'')]"
proof -
  let ?c = "client_example (reply 0 [] []) (reply 200 [] ''{id: abc123}'')"
  let ?w1 = "world_example\<lparr>sent := [GetMonitor_request ?c ''abc123'']\<rparr>"
  have s: "GetMonitorScript (syn_example (''console.log(1)'', None)) ?c (Id rd_read_example) ?w1
           = ((''console.log(1)'', None), ?w1)"
    by (simp add: syn_example_def)
  show ?thesis
    using read_keeps_script_locations [OF GetMonitor_example s]
    by (simp add: rd_read_example_def)
qed

end
